theory Spec2Isabelle
  imports Complex_Main
begin

section \<open>The OPC UA machine simulator (dev/opc-ua-simulator/src/index.ts)\<close>

subsection \<open>JavaScript values\<close>

text \<open>
  A JavaScript \<^verbatim>\<open>number\<close> is an IEEE-754 double: NaN, one of the two infinities, or a
  finite value. The finite values are embedded in the reals; which reals are doubles is
  left open, and every arithmetic operation rounds its exact result with a rounding
  function \<open>rnd\<close> that the model takes as a parameter.
\<close>

datatype jsnum = NaN | NegInfinity | Fin real | PosInfinity

text \<open>
  The values a variable can hold at run time. TypeScript's annotations (and
  \<^verbatim>\<open>as boolean\<close>) are erased by the compiler, so a slot declared \<^verbatim>\<open>boolean\<close> holds
  whatever was assigned to it.
\<close>

datatype js_value =
    JSUndefined
  | JSNull
  | JSBoolean bool
  | JSNumber jsnum
  | JSString string
  | JSObject

text \<open>ToBoolean: what \<^verbatim>\<open>if (v)\<close> and \<^verbatim>\<open>!v\<close> read of a value.\<close>

fun truthy :: "js_value \<Rightarrow> bool" where
  "truthy JSUndefined = False"
| "truthy JSNull = False"
| "truthy (JSBoolean b) = b"
| "truthy (JSNumber NaN) = False"
| "truthy (JSNumber (Fin x)) = (x \<noteq> 0)"
| "truthy (JSNumber _) = True"
| "truthy (JSString s) = (s \<noteq> [])"
| "truthy JSObject = True"

subsection \<open>The OPC UA types the simulator uses\<close>

text \<open>
  \<^verbatim>\<open>DataType\<close> and \<^verbatim>\<open>StatusCodes\<close> come from the node-opcua library: the built-in
  types of OPC UA, and of the status codes the two that the simulator returns.
\<close>

datatype DataType =
    Null | Boolean | SByte | Byte | Int16 | UInt16 | Int32 | UInt32 | Int64 | UInt64
  | Float | Double | String | DateTime | Guid | ByteString | XmlElement | NodeId
  | ExpandedNodeId | StatusCode | QualifiedName | LocalizedText | ExtensionObject
  | DataValue | Variant | DiagnosticInfo

datatype StatusCodes = Good | BadTypeMismatch

record variant =
  dataType :: DataType
  "value" :: js_value

subsection \<open>The machine state and the handlers of the IsRunning variable\<close>

record MachineState =
  isRunning :: js_value
  temperature :: jsnum
  pressure :: jsnum

text \<open>The state the class starts with.\<close>

definition initialState :: MachineState where
  "initialState =
     \<lparr>isRunning = JSBoolean False, temperature = Fin 22, pressure = Fin 1\<rparr>"

text \<open>
  \<^verbatim>\<open>
  get: () => new Variant({ dataType: DataType.Boolean, value: this.machineState.isRunning })
  set: (variant: Variant) => {
      if (variant.dataType === DataType.Boolean) {
          this.machineState.isRunning = variant.value as boolean;
          return StatusCodes.Good;
      }
      return StatusCodes.BadTypeMismatch;
  }
  \<close>
  The handler mutates the state; the model returns the status code with the new state.
\<close>

definition isRunning_get :: "MachineState \<Rightarrow> variant" where
  "isRunning_get s = \<lparr>dataType = Boolean, value = isRunning s\<rparr>"

definition isRunning_set :: "variant \<Rightarrow> MachineState \<Rightarrow> StatusCodes \<times> MachineState" where
  "isRunning_set v s =
     (if dataType v = Boolean then (Good, s\<lparr>isRunning := value v\<rparr>)
      else (BadTypeMismatch, s))"

subsection \<open>Arithmetic on doubles\<close>

text \<open>
  The exact result of an operation on finite operands is rounded by \<open>rnd\<close>, which gives
  a finite double or, on overflow, an infinity. The special cases are IEEE-754's:
  NaN is contagious, \<open>\<infinity> - \<infinity>\<close> and \<open>\<infinity> * 0\<close> are NaN, and every comparison with
  NaN is false. Negation is exact. (The sign of zero is not modelled; no operation of
  the simulator observes it.)
\<close>

fun js_neg :: "jsnum \<Rightarrow> jsnum" where
  "js_neg NaN = NaN"
| "js_neg NegInfinity = PosInfinity"
| "js_neg (Fin x) = Fin (- x)"
| "js_neg PosInfinity = NegInfinity"

fun js_add :: "(real \<Rightarrow> jsnum) \<Rightarrow> jsnum \<Rightarrow> jsnum \<Rightarrow> jsnum" where
  "js_add rnd NaN _ = NaN"
| "js_add rnd _ NaN = NaN"
| "js_add rnd (Fin x) (Fin y) = rnd (x + y)"
| "js_add rnd (Fin x) b = b"
| "js_add rnd a (Fin y) = a"
| "js_add rnd PosInfinity PosInfinity = PosInfinity"
| "js_add rnd NegInfinity NegInfinity = NegInfinity"
| "js_add rnd PosInfinity NegInfinity = NaN"
| "js_add rnd NegInfinity PosInfinity = NaN"

definition js_sub :: "(real \<Rightarrow> jsnum) \<Rightarrow> jsnum \<Rightarrow> jsnum \<Rightarrow> jsnum" where
  "js_sub rnd a b = js_add rnd a (js_neg b)"

text \<open>An infinity with the sign of \<open>x\<close>, for \<open>x \<noteq> 0\<close>.\<close>

definition inf_of_sign :: "real \<Rightarrow> jsnum" where
  "inf_of_sign x = (if x < 0 then NegInfinity else PosInfinity)"

fun js_mul :: "(real \<Rightarrow> jsnum) \<Rightarrow> jsnum \<Rightarrow> jsnum \<Rightarrow> jsnum" where
  "js_mul rnd NaN _ = NaN"
| "js_mul rnd _ NaN = NaN"
| "js_mul rnd (Fin x) (Fin y) = rnd (x * y)"
| "js_mul rnd (Fin x) PosInfinity = (if x = 0 then NaN else inf_of_sign x)"
| "js_mul rnd (Fin x) NegInfinity = (if x = 0 then NaN else inf_of_sign (- x))"
| "js_mul rnd PosInfinity (Fin y) = (if y = 0 then NaN else inf_of_sign y)"
| "js_mul rnd NegInfinity (Fin y) = (if y = 0 then NaN else inf_of_sign (- y))"
| "js_mul rnd PosInfinity PosInfinity = PosInfinity"
| "js_mul rnd NegInfinity NegInfinity = PosInfinity"
| "js_mul rnd PosInfinity NegInfinity = NegInfinity"
| "js_mul rnd NegInfinity PosInfinity = NegInfinity"

text \<open>The comparisons \<^verbatim>\<open>a < b\<close> and \<^verbatim>\<open>a <= b\<close>.\<close>

fun js_lt :: "jsnum \<Rightarrow> jsnum \<Rightarrow> bool" where
  "js_lt NaN _ = False"
| "js_lt _ NaN = False"
| "js_lt (Fin x) (Fin y) = (x < y)"
| "js_lt _ NegInfinity = False"
| "js_lt PosInfinity _ = False"
| "js_lt NegInfinity _ = True"
| "js_lt (Fin x) PosInfinity = True"

fun js_le :: "jsnum \<Rightarrow> jsnum \<Rightarrow> bool" where
  "js_le NaN _ = False"
| "js_le _ NaN = False"
| "js_le (Fin x) (Fin y) = (x \<le> y)"
| "js_le NegInfinity _ = True"
| "js_le _ PosInfinity = True"
| "js_le PosInfinity _ = False"
| "js_le (Fin x) NegInfinity = False"

text \<open>
  \<^verbatim>\<open>Math.min\<close> and \<^verbatim>\<open>Math.max\<close> of two arguments: NaN when an argument is NaN,
  else the smaller (the larger) of the two.
\<close>

definition Math_min :: "jsnum \<Rightarrow> jsnum \<Rightarrow> jsnum" where
  "Math_min a b =
     (if a = NaN \<or> b = NaN then NaN else if js_lt b a then b else a)"

definition Math_max :: "jsnum \<Rightarrow> jsnum \<Rightarrow> jsnum" where
  "Math_max a b =
     (if a = NaN \<or> b = NaN then NaN else if js_lt a b then b else a)"

text \<open>
  What the model asks of the rounding function: the rounded value of a real is never
  NaN, and a real of magnitude at most 1 does not overflow. Rounding to nearest, the
  mode JavaScript uses, is such a function.
\<close>

definition rounding :: "(real \<Rightarrow> jsnum) \<Rightarrow> bool" where
  "rounding rnd \<longleftrightarrow>
     (\<forall>x. rnd x \<noteq> NaN) \<and> (\<forall>x. \<bar>x\<bar> \<le> 1 \<longrightarrow> (\<exists>y. rnd x = Fin y))"

subsection \<open>One tick of the simulation\<close>

text \<open>
  The body of the \<^verbatim>\<open>setInterval\<close> callback of \<^verbatim>\<open>startSimulation\<close>. Its three calls of
  \<^verbatim>\<open>Math.random()\<close> are the inputs \<open>r1\<close>, \<open>r2\<close>, \<open>r3\<close>, in the order of the calls; the
  state is passed in and returned. The literals 80.0, 22.0, 5.0, 2, 1.0 and 0.5 are
  doubles; 0.2 and 0.1 are not, and stand for their rounded values. The final
  \<^verbatim>\<open>console.log\<close> changes no state and is left out.
  \<^verbatim>\<open>
  if (Math.random() < 0.2) { isRunning = !isRunning; }
  const tempDelta = (Math.random() - 0.5) * 2;
  if (isRunning) { temperature = Math.min(80.0, temperature + tempDelta + 0.2); }
  else { temperature = temperature + (22.0 - temperature) * 0.1 + tempDelta; }
  const pressureDelta = (Math.random() - 0.5) * 0.2;
  if (isRunning) { pressure = Math.max(0.5, Math.min(5.0, pressure + pressureDelta)); }
  else { pressure = pressure + (1.0 - pressure) * 0.1 + pressureDelta; }
  \<close>
\<close>

definition tick ::
  "(real \<Rightarrow> jsnum) \<Rightarrow> real \<Rightarrow> real \<Rightarrow> real \<Rightarrow> MachineState \<Rightarrow> MachineState" where
  "tick rnd r1 r2 r3 s =
     (let s1 = (if js_lt (Fin r1) (rnd 0.2)
                then s\<lparr>isRunning := JSBoolean (\<not> truthy (isRunning s))\<rparr>
                else s);
          tempDelta = js_mul rnd (js_sub rnd (Fin r2) (Fin 0.5)) (Fin 2);
          s2 = (if truthy (isRunning s1)
                then s1\<lparr>temperature :=
                       Math_min (Fin 80)
                         (js_add rnd (js_add rnd (temperature s1) tempDelta) (rnd 0.2))\<rparr>
                else s1\<lparr>temperature :=
                       js_add rnd
                         (js_add rnd (temperature s1)
                            (js_mul rnd (js_sub rnd (Fin 22) (temperature s1)) (rnd 0.1)))
                         tempDelta\<rparr>);
          pressureDelta = js_mul rnd (js_sub rnd (Fin r3) (Fin 0.5)) (rnd 0.2)
      in if truthy (isRunning s2)
         then s2\<lparr>pressure :=
                Math_max (Fin 0.5)
                  (Math_min (Fin 5) (js_add rnd (pressure s2) pressureDelta))\<rparr>
         else s2\<lparr>pressure :=
                js_add rnd
                  (js_add rnd (pressure s2)
                     (js_mul rnd (js_sub rnd (Fin 1) (pressure s2)) (rnd 0.1)))
                  pressureDelta\<rparr>)"

section \<open>The zone registry of the person tracker\<close>

text \<open>
  Modelled from the spec: the Zone Registry (\<^verbatim>\<open>contains\<close>) of the zone detection program
  \<^verbatim>\<open>zone_detection.py\<close>, which is not among the source files; only its usage guide is.
  The definitions follow sections 3, 4.1 and 6 of the specification and the guide's
  description of the zone file and of the point-in-polygon test.
\<close>

type_synonym point = "real \<times> real"

text \<open>
  Modelled from the spec: a zone as the zone file gives it, under its identifier: a
  display name, a display colour and the ordered vertices of its polygon.
\<close>

record zone =
  name :: string
  color :: "nat \<times> nat \<times> nat"
  points :: "point list"

type_synonym zones = "string \<rightharpoonup> zone"

text \<open>
  Modelled from the spec: the edges of a polygon join each vertex to the next one, and
  the last vertex to the first.
\<close>

definition edges :: "point list \<Rightarrow> (point \<times> point) list" where
  "edges ps = zip ps (rotate1 ps)"

text \<open>
  Modelled from the spec: the test whether the horizontal ray from \<open>(px, py)\<close> towards
  larger \<open>x\<close> crosses the edge from \<open>(ax, ay)\<close> to \<open>(bx, by)\<close>: exactly one end of the edge
  lies strictly above the ray's line, and the edge meets that line to the right of the
  point.
\<close>

fun crossing :: "point \<Rightarrow> point \<times> point \<Rightarrow> bool" where
  "crossing (px, py) ((ax, ay), (bx, by)) =
     (((py < ay) \<noteq> (py < by)) \<and> px < ax + (py - ay) * (bx - ax) / (by - ay))"

text \<open>Modelled from the spec: the number of polygon edges the ray crosses.\<close>

definition crossings :: "point list \<Rightarrow> point \<Rightarrow> nat" where
  "crossings ps p = length (filter (crossing p) (edges ps))"

text \<open>
  Modelled from the spec: \<^verbatim>\<open>contains(zoneId, point)\<close>, inside when the count is odd. The
  specification does not say what is returned for an identifier that names no zone;
  the model answers \<open>False\<close> there.
\<close>

definition contains :: "zones \<Rightarrow> string \<Rightarrow> point \<Rightarrow> bool" where
  "contains zs zid p =
     (case zs zid of None \<Rightarrow> False | Some z \<Rightarrow> odd (crossings (points z) p))"

text \<open>
  Modelled from the spec: what it means that the horizontal ray cast from \<open>p\<close> crosses
  the edge from \<open>a\<close> to \<open>b\<close>, stated on the points of the plane: some point of the segment
  lies on the ray, to the right of \<open>p\<close>, and strictly below the upper end of the edge.
  The last condition is the usual convention for a ray that passes through a vertex:
  an edge does not count at its upper end, and a horizontal edge never counts.
\<close>

definition ray_crosses :: "point \<Rightarrow> point \<Rightarrow> point \<Rightarrow> bool" where
  "ray_crosses p a b \<longleftrightarrow>
     (\<exists>t. 0 \<le> t \<and> t \<le> 1 \<and>
          snd a + t * (snd b - snd a) = snd p \<and>
          fst p < fst a + t * (fst b - fst a) \<and>
          snd p < max (snd a) (snd b))"

text \<open>Modelled from the spec: the square zone of its section 8.\<close>

definition square :: zone where
  "square = \<lparr>name = ''square'', color = (0, 255, 0),
              points = [(0, 0), (100, 0), (100, 100), (0, 100)]\<rparr>"

section \<open>Properties of the simulator\<close>

subsection \<open>Writes to IsRunning\<close>

lemma isRunning_set_keeps_numbers:
  "temperature (snd (isRunning_set v s)) = temperature s \<and>
   pressure (snd (isRunning_set v s)) = pressure s"
  by (simp add: isRunning_set_def)

text \<open>
  Claim C9. A write to the IsRunning variable stores the written value in
  \<open>isRunning\<close> and returns \<open>Good\<close> exactly when the variant's data type is
  \<open>Boolean\<close>; a variant of any other data type is answered with \<open>BadTypeMismatch\<close> and
  the whole state, \<open>isRunning\<close> included, stays as it was.
\<close>

theorem isRunning_set_by_dataType:
  "(fst (isRunning_set v s) = Good \<longleftrightarrow> dataType v = Boolean) \<and>
   (dataType v = Boolean \<longrightarrow>
      isRunning_set v s = (Good, s\<lparr>isRunning := value v\<rparr>) \<and>
      isRunning (snd (isRunning_set v s)) = value v) \<and>
   (dataType v \<noteq> Boolean \<longrightarrow>
      isRunning_set v s = (BadTypeMismatch, s) \<and>
      isRunning (snd (isRunning_set v s)) = isRunning s)"
  by (simp add: isRunning_set_def)

theorem isRunning_set_by_dataType_witness:
  "isRunning_set \<lparr>dataType = Boolean, value = JSBoolean True\<rparr> initialState
     = (Good, initialState\<lparr>isRunning := JSBoolean True\<rparr>) \<and>
   isRunning_set \<lparr>dataType = Double, value = JSNumber (Fin 1)\<rparr> initialState
     = (BadTypeMismatch, initialState) \<and>
   isRunning_set \<lparr>dataType = String, value = JSString ''true''\<rparr> initialState
     = (BadTypeMismatch, initialState)"
  using isRunning_set_by_dataType
          [of "\<lparr>dataType = Boolean, value = JSBoolean True\<rparr>" initialState]
        isRunning_set_by_dataType
          [of "\<lparr>dataType = Double, value = JSNumber (Fin 1)\<rparr>" initialState]
        isRunning_set_by_dataType
          [of "\<lparr>dataType = String, value = JSString ''true''\<rparr>" initialState]
  by simp

subsection \<open>Arithmetic that does not produce NaN\<close>

lemma rounding_not_NaN: "rounding rnd \<Longrightarrow> rnd x \<noteq> NaN"
  by (simp add: rounding_def)

lemma rounding_small: "rounding rnd \<Longrightarrow> \<bar>x\<bar> \<le> 1 \<Longrightarrow> \<exists>y. rnd x = Fin y"
  by (simp add: rounding_def)

lemma rounding_exact: "rounding Fin"
  by (simp add: rounding_def)

lemma js_add_Fin_not_NaN:
  "rounding rnd \<Longrightarrow> b \<noteq> NaN \<Longrightarrow> js_add rnd (Fin x) b \<noteq> NaN"
  by (cases b) (simp_all add: rounding_not_NaN)

lemma js_add_not_NaN_Fin:
  "rounding rnd \<Longrightarrow> a \<noteq> NaN \<Longrightarrow> js_add rnd a (Fin y) \<noteq> NaN"
  by (cases a) (simp_all add: rounding_not_NaN)

lemma js_sub_Fin_Fin: "js_sub rnd (Fin x) (Fin y) = rnd (x - y)"
  by (simp add: js_sub_def)

lemma js_mul_nonzero_not_NaN:
  "rounding rnd \<Longrightarrow> a \<noteq> NaN \<Longrightarrow> y \<noteq> 0 \<Longrightarrow> js_mul rnd a (Fin y) \<noteq> NaN"
  by (cases a) (simp_all add: rounding_not_NaN inf_of_sign_def)

lemma tempDelta_not_NaN:
  assumes "rounding rnd"
  shows "js_mul rnd (js_sub rnd (Fin r) (Fin c)) (Fin 2) \<noteq> NaN"
proof -
  have "js_sub rnd (Fin r) (Fin c) \<noteq> NaN"
    using assms by (simp add: js_sub_Fin_Fin rounding_not_NaN)
  then show ?thesis
    using assms by (simp add: js_mul_nonzero_not_NaN)
qed

lemma pressureDelta_not_NaN:
  assumes "rounding rnd" and "\<bar>r - c\<bar> \<le> 1" and "\<bar>k\<bar> \<le> 1"
  shows "js_mul rnd (js_sub rnd (Fin r) (Fin c)) (rnd k) \<noteq> NaN"
proof -
  obtain a where a: "rnd (r - c) = Fin a"
    using assms(1,2) rounding_small by blast
  obtain b where b: "rnd k = Fin b"
    using assms(1,3) rounding_small by blast
  show ?thesis
    using assms(1) by (simp add: js_sub_Fin_Fin a b rounding_not_NaN)
qed

lemma js_add_add_not_NaN:
  assumes "rounding rnd" and "d \<noteq> NaN" and "\<bar>k\<bar> \<le> 1"
  shows "js_add rnd (js_add rnd (Fin t) d) (rnd k) \<noteq> NaN"
proof -
  obtain b where b: "rnd k = Fin b"
    using assms(1,3) rounding_small by blast
  have "js_add rnd (Fin t) d \<noteq> NaN"
    using assms(1,2) by (rule js_add_Fin_not_NaN)
  then show ?thesis
    using assms(1) by (simp add: b js_add_not_NaN_Fin)
qed

subsection \<open>Clamping with Math.min and Math.max\<close>

lemma Math_min_not_above: "\<not> js_lt (Fin c) (Math_min (Fin c) b)"
  by (cases b) (simp_all add: Math_min_def)

lemma Math_min_le: "b \<noteq> NaN \<Longrightarrow> js_le (Math_min (Fin c) b) (Fin c)"
  by (cases b) (simp_all add: Math_min_def)

lemma clamp_bounds:
  "b \<noteq> NaN \<Longrightarrow> lo \<le> hi \<Longrightarrow>
   js_le (Fin lo) (Math_max (Fin lo) (Math_min (Fin hi) b)) \<and>
   js_le (Math_max (Fin lo) (Math_min (Fin hi) b)) (Fin hi)"
  by (cases b) (auto simp add: Math_min_def Math_max_def)

lemma js_le_between_Fin: "js_le (Fin lo) a \<Longrightarrow> js_le a (Fin hi) \<Longrightarrow> \<exists>p. a = Fin p"
  by (cases a) simp_all

subsection \<open>The tick\<close>

text \<open>
  The tick writes \<open>isRunning\<close> only in its first statement, so the flag of the state it
  returns is the flag its two \<^verbatim>\<open>if (isRunning)\<close> tests read.
\<close>

lemma tick_isRunning:
  "truthy (isRunning (tick rnd r1 r2 r3 s)) =
     (if js_lt (Fin r1) (rnd 0.2) then \<not> truthy (isRunning s) else truthy (isRunning s))"
  by (simp add: tick_def Let_def)

lemma tick_running_temperature:
  assumes "truthy (isRunning (tick rnd r1 r2 r3 s))"
  shows "temperature (tick rnd r1 r2 r3 s) =
           Math_min (Fin 80)
             (js_add rnd
                (js_add rnd (temperature s)
                   (js_mul rnd (js_sub rnd (Fin r2) (Fin 0.5)) (Fin 2)))
                (rnd 0.2))"
  using assms by (simp add: tick_def Let_def split: if_splits)

lemma tick_running_pressure:
  assumes "truthy (isRunning (tick rnd r1 r2 r3 s))"
  shows "pressure (tick rnd r1 r2 r3 s) =
           Math_max (Fin 0.5)
             (Math_min (Fin 5)
                (js_add rnd (pressure s)
                   (js_mul rnd (js_sub rnd (Fin r3) (Fin 0.5)) (rnd 0.2))))"
  using assms by (simp add: tick_def Let_def split: if_splits)

lemma tick_not_running_pressure:
  assumes "\<not> truthy (isRunning (tick rnd r1 r2 r3 s))"
  shows "pressure (tick rnd r1 r2 r3 s) =
           js_add rnd
             (js_add rnd (pressure s)
                (js_mul rnd (js_sub rnd (Fin 1) (pressure s)) (rnd 0.1)))
             (js_mul rnd (js_sub rnd (Fin r3) (Fin 0.5)) (rnd 0.2))"
  using assms by (simp add: tick_def Let_def split: if_splits)

lemma mult_near:
  fixes a b a0 b0 e :: real
  assumes "\<bar>a - a0\<bar> \<le> e" "\<bar>b - b0\<bar> \<le> e" "\<bar>a0\<bar> \<le> 1" "\<bar>b0\<bar> \<le> 1" "0 \<le> e" "e \<le> 1"
  shows "\<bar>a * b - a0 * b0\<bar> \<le> 3 * e"
proof -
  have eq: "a * b - a0 * b0 = (a - a0) * (b - b0) + a0 * (b - b0) + (a - a0) * b0"
    by (simp add: algebra_simps)
  have h1: "\<bar>(a - a0) * (b - b0)\<bar> \<le> e * e"
    unfolding abs_mult using assms by (intro mult_mono) simp_all
  have "e * e \<le> e * 1" using assms by (intro mult_left_mono) simp_all
  with h1 have h1': "\<bar>(a - a0) * (b - b0)\<bar> \<le> e" by simp
  have h2: "\<bar>a0 * (b - b0)\<bar> \<le> 1 * e"
    unfolding abs_mult using assms by (intro mult_mono) simp_all
  have h3: "\<bar>(a - a0) * b0\<bar> \<le> e * 1"
    unfolding abs_mult using assms by (intro mult_mono) simp_all
  show ?thesis unfolding eq using h1' h2 h3 by linarith
qed

text \<open>
  Claim C10, as stated, is about every tick taken while \<open>isRunning\<close> is true. The tick
  first toggles the flag with the first random number; a tick that starts running
  and toggles takes the branches that relax towards the ambient values, which do not
  clamp. From a pressure of 0.5 it ends at 0.45 (here in exact arithmetic, the
  random numbers being 0, 0.5 and 0).
\<close>

theorem tick_started_running_counterexample:
  "rounding Fin \<and>
   truthy (isRunning \<lparr>isRunning = JSBoolean True, temperature = Fin 22, pressure = Fin 0.5\<rparr>) \<and>
   js_le (Fin 0.5)
     (pressure \<lparr>isRunning = JSBoolean True, temperature = Fin 22, pressure = Fin 0.5\<rparr>) \<and>
   js_le (pressure \<lparr>isRunning = JSBoolean True, temperature = Fin 22, pressure = Fin 0.5\<rparr>)
     (Fin 5) \<and>
   pressure
     (tick Fin 0 0.5 0
        \<lparr>isRunning = JSBoolean True, temperature = Fin 22, pressure = Fin 0.5\<rparr>)
     = Fin 0.45 \<and>
   \<not> js_le (Fin 0.5)
     (pressure
        (tick Fin 0 0.5 0
           \<lparr>isRunning = JSBoolean True, temperature = Fin 22, pressure = Fin 0.5\<rparr>))"
  by (simp add: rounding_exact tick_def Let_def js_sub_def)

text \<open>
  The tick above does not depend on exact arithmetic: with any rounding that is off by
  at most 1/1000 on results of magnitude at most 1 (a double is off by less than
  \<open>10\<^sup>-\<^sup>1\<^sup>6\<close> there), it ends with a pressure below 0.5.
\<close>

lemma tick_started_running_below:
  assumes acc: "\<And>x. \<bar>x\<bar> \<le> 1 \<Longrightarrow> \<exists>y. rnd x = Fin y \<and> \<bar>y - x\<bar> \<le> 1 / 1000"
  shows "\<exists>p. pressure
               (tick rnd 0 0.5 0
                  \<lparr>isRunning = JSBoolean True, temperature = Fin 22, pressure = Fin 0.5\<rparr>)
             = Fin p \<and> p < 0.5"
proof -
  let ?s = "\<lparr>isRunning = JSBoolean True, temperature = Fin 22, pressure = Fin 0.5\<rparr>"
  obtain b where b: "rnd 0.2 = Fin b" "\<bar>b - 0.2\<bar> \<le> 1 / 1000"
    using acc [of "0.2"] by auto
  obtain c where c: "rnd 0.1 = Fin c" "\<bar>c - 0.1\<bar> \<le> 1 / 1000"
    using acc [of "0.1"] by auto
  obtain a where a: "rnd (- 0.5) = Fin a" "\<bar>a - (- 0.5)\<bar> \<le> 1 / 1000"
    using acc [of "- 0.5"] by auto
  obtain u where u: "rnd 0.5 = Fin u" "\<bar>u - 0.5\<bar> \<le> 1 / 1000"
    using acc [of "0.5"] by auto
  have ab: "\<bar>a * b - (- 0.5) * 0.2\<bar> \<le> 3 * (1 / 1000)"
    using a(2) b(2) by (intro mult_near) simp_all
  have uc: "\<bar>u * c - 0.5 * 0.1\<bar> \<le> 3 * (1 / 1000)"
    using u(2) c(2) by (intro mult_near) simp_all
  have ab1: "\<bar>a * b\<bar> \<le> 1" using ab by linarith
  have uc1: "\<bar>u * c\<bar> \<le> 1" using uc by linarith
  obtain d where d: "rnd (a * b) = Fin d" "\<bar>d - a * b\<bar> \<le> 1 / 1000"
    using acc [OF ab1] by auto
  obtain m where m: "rnd (u * c) = Fin m" "\<bar>m - u * c\<bar> \<le> 1 / 1000"
    using acc [OF uc1] by auto
  have m1: "\<bar>0.5 + m\<bar> \<le> 1" using m(2) uc by linarith
  obtain q where q: "rnd (0.5 + m) = Fin q" "\<bar>q - (0.5 + m)\<bar> \<le> 1 / 1000"
    using acc [OF m1] by auto
  have q1: "\<bar>q + d\<bar> \<le> 1" using q(2) m(2) uc d(2) ab by linarith
  obtain p where p: "rnd (q + d) = Fin p" "\<bar>p - (q + d)\<bar> \<le> 1 / 1000"
    using acc [OF q1] by auto
  have "0 < b" using b(2) by linarith
  then have toggled: "js_lt (Fin 0) (rnd 0.2)"
    using b(1) by simp
  then have off: "\<not> truthy (isRunning (tick rnd 0 0.5 0 ?s))"
    by (simp add: tick_isRunning)
  have "pressure (tick rnd 0 0.5 0 ?s) =
          js_add rnd
            (js_add rnd (pressure ?s)
               (js_mul rnd (js_sub rnd (Fin 1) (pressure ?s)) (rnd 0.1)))
            (js_mul rnd (js_sub rnd (Fin 0) (Fin 0.5)) (rnd 0.2))"
    by (rule tick_not_running_pressure [OF off])
  also have "\<dots> = Fin p"
    using a(1) b(1) c(1) u(1) d(1) m(1) q(1) p(1)
    by (simp add: js_sub_def)
  finally have "pressure (tick rnd 0 0.5 0 ?s) = Fin p" .
  moreover have "p < 0.5"
    using p(2) q(2) m(2) uc d(2) ab by linarith
  ultimately show ?thesis by blast
qed

text \<open>
  Claim C10, amended. In every tick whose \<^verbatim>\<open>if (isRunning)\<close> tests succeed, that is
  where \<open>isRunning\<close> is true after the tick's own random toggle, whatever the three
  random numbers are (the third one in \<open>[0, 1)\<close>, as \<^verbatim>\<open>Math.random()\<close> gives it) and however
  the arithmetic rounds: the new temperature does not exceed 80 (and is at most 80,
  not NaN, when the old one was finite), and the new pressure lies in \<open>[0.5, 5]\<close>,
  provided the old one did.
\<close>

theorem tick_running_bounded:
  assumes rnd: "rounding rnd"
    and r3: "0 \<le> r3" "r3 < 1"
    and run: "truthy (isRunning (tick rnd r1 r2 r3 s))"
    and p: "js_le (Fin 0.5) (pressure s)" "js_le (pressure s) (Fin 5)"
  shows "\<not> js_lt (Fin 80) (temperature (tick rnd r1 r2 r3 s))
       \<and> ((\<exists>t. temperature s = Fin t) \<longrightarrow>
            js_le (temperature (tick rnd r1 r2 r3 s)) (Fin 80))
       \<and> js_le (Fin 0.5) (pressure (tick rnd r1 r2 r3 s))
       \<and> js_le (pressure (tick rnd r1 r2 r3 s)) (Fin 5)"
proof -
  have t1: "\<not> js_lt (Fin 80) (temperature (tick rnd r1 r2 r3 s))"
    by (simp add: tick_running_temperature [OF run] Math_min_not_above)
  have t2: "js_le (temperature (tick rnd r1 r2 r3 s)) (Fin 80)"
    if "\<exists>t. temperature s = Fin t"
  proof -
    from that obtain t where t: "temperature s = Fin t" ..
    have "js_add rnd
            (js_add rnd (Fin t) (js_mul rnd (js_sub rnd (Fin r2) (Fin 0.5)) (Fin 2)))
            (rnd 0.2) \<noteq> NaN"
      using rnd by (intro js_add_add_not_NaN tempDelta_not_NaN) simp_all
    then show ?thesis
      by (simp add: tick_running_temperature [OF run] t Math_min_le)
  qed
  from p obtain q where q: "pressure s = Fin q"
    using js_le_between_Fin by blast
  have "js_mul rnd (js_sub rnd (Fin r3) (Fin 0.5)) (rnd 0.2) \<noteq> NaN"
    using rnd r3 by (intro pressureDelta_not_NaN) simp_all
  then have "js_add rnd (Fin q) (js_mul rnd (js_sub rnd (Fin r3) (Fin 0.5)) (rnd 0.2)) \<noteq> NaN"
    using rnd by (simp add: js_add_Fin_not_NaN)
  then have p': "js_le (Fin 0.5) (pressure (tick rnd r1 r2 r3 s)) \<and>
        js_le (pressure (tick rnd r1 r2 r3 s)) (Fin 5)"
    by (simp add: tick_running_pressure [OF run] q clamp_bounds)
  from t1 t2 p' show ?thesis by blast
qed

theorem tick_running_bounded_witness:
  "rounding Fin \<and> (0::real) \<le> 0.9 \<and> (0.9::real) < 1 \<and>
   truthy (isRunning
     (tick Fin 0.5 0.9 0.9
        \<lparr>isRunning = JSBoolean True, temperature = Fin 79.5, pressure = Fin 4.95\<rparr>)) \<and>
   js_le (Fin 0.5)
     (pressure \<lparr>isRunning = JSBoolean True, temperature = Fin 79.5, pressure = Fin 4.95\<rparr>) \<and>
   js_le (pressure \<lparr>isRunning = JSBoolean True, temperature = Fin 79.5, pressure = Fin 4.95\<rparr>)
     (Fin 5) \<and>
   tick Fin 0.5 0.9 0.9
     \<lparr>isRunning = JSBoolean True, temperature = Fin 79.5, pressure = Fin 4.95\<rparr>
     = \<lparr>isRunning = JSBoolean True, temperature = Fin 80, pressure = Fin 5\<rparr> \<and>
   js_le
     (temperature
        (tick Fin 0.5 0.9 0.9
           \<lparr>isRunning = JSBoolean True, temperature = Fin 79.5, pressure = Fin 4.95\<rparr>))
     (Fin 80) \<and>
   js_le
     (pressure
        (tick Fin 0.5 0.9 0.9
           \<lparr>isRunning = JSBoolean True, temperature = Fin 79.5, pressure = Fin 4.95\<rparr>))
     (Fin 5)"
  using tick_running_bounded
          [of Fin "0.9" "0.5" "0.9"
              "\<lparr>isRunning = JSBoolean True, temperature = Fin 79.5, pressure = Fin 4.95\<rparr>"]
  by (simp add: rounding_exact tick_def Let_def js_sub_def Math_min_def Math_max_def)

section \<open>Properties of the zone registry\<close>

text \<open>The test the registry computes is the crossing of the ray and the edge.\<close>

lemma crossing_iff_ray_crosses: "crossing p (a, b) \<longleftrightarrow> ray_crosses p a b"
proof -
  obtain px py where p: "p = (px, py)" by (cases p)
  obtain ax ay where a: "a = (ax, ay)" by (cases a)
  obtain bx "by" where b: "b = (bx, by)" by (cases b)
  show ?thesis
  proof
    assume "crossing p (a, b)"
    then have st: "(py < ay) \<noteq> (py < by)"
      and x: "px < ax + (py - ay) * (bx - ax) / (by - ay)"
      by (simp_all add: p a b)
    from st have ne: "ay \<noteq> by" by auto
    define t where "t = (py - ay) / (by - ay)"
    have t0: "0 \<le> t" using st ne unfolding t_def
      by (cases "ay < by") (auto simp: field_simps zero_le_divide_iff)
    have t1: "t \<le> 1" using st ne unfolding t_def
      by (cases "ay < by") (auto simp: field_simps divide_le_eq)
    have y: "ay + t * (by - ay) = py" using ne by (simp add: t_def)
    have x': "px < ax + t * (bx - ax)" using x by (simp add: t_def)
    have m: "py < max ay by" using st by auto
    show "ray_crosses p a b"
      unfolding ray_crosses_def using t0 t1 y x' m by (auto simp: p a b)
  next
    assume "ray_crosses p a b"
    then obtain t where t: "0 \<le> t" "t \<le> 1"
      and y: "ay + t * (by - ay) = py"
      and x: "px < ax + t * (bx - ax)"
      and m: "py < max ay by"
      by (auto simp: ray_crosses_def p a b)
    have ne: "ay \<noteq> by" using y m by auto
    have teq: "t = (py - ay) / (by - ay)" using y ne by (auto simp: field_simps)
    have st: "(py < ay) \<noteq> (py < by)"
    proof (cases "ay < by")
      case True
      then have "0 \<le> t * (by - ay)" using t by simp
      then have "ay \<le> py" using y by linarith
      moreover have "py < by" using m True by simp
      ultimately show ?thesis by auto
    next
      case False
      with ne have lt: "by < ay" by simp
      then have "by - ay \<le> t * (by - ay)"
        using t mult_right_mono_neg [of t 1 "by - ay"] by simp
      then have "by \<le> py" using y by linarith
      moreover have "py < ay" using m lt by simp
      ultimately show ?thesis by auto
    qed
    show "crossing p (a, b)"
      using st x by (simp add: p a b teq)
  qed
qed

text \<open>
  The convention matters only for a ray through a vertex: when the point is level with
  neither end of the edge, the ray crosses the edge exactly when it meets the segment.
\<close>

lemma ray_crosses_off_vertices:
  assumes "snd p \<noteq> snd a" and "snd p \<noteq> snd b"
  shows "ray_crosses p a b \<longleftrightarrow>
           (\<exists>t. 0 \<le> t \<and> t \<le> 1 \<and>
                snd a + t * (snd b - snd a) = snd p \<and>
                fst p < fst a + t * (fst b - fst a))"
proof
  assume "ray_crosses p a b"
  then show "\<exists>t. 0 \<le> t \<and> t \<le> 1 \<and> snd a + t * (snd b - snd a) = snd p \<and>
                fst p < fst a + t * (fst b - fst a)"
    unfolding ray_crosses_def by blast
next
  assume "\<exists>t. 0 \<le> t \<and> t \<le> 1 \<and> snd a + t * (snd b - snd a) = snd p \<and>
                fst p < fst a + t * (fst b - fst a)"
  then obtain t where t: "0 \<le> t" "t \<le> 1"
    and y: "snd a + t * (snd b - snd a) = snd p"
    and x: "fst p < fst a + t * (fst b - fst a)"
    by blast
  have "snd p \<le> max (snd a) (snd b)"
  proof (cases "snd a \<le> snd b")
    case True
    then have "t * (snd b - snd a) \<le> 1 * (snd b - snd a)"
      using t by (intro mult_right_mono) simp_all
    with y True show ?thesis by simp
  next
    case False
    then have "t * (snd b - snd a) \<le> 0"
      using t by (simp add: mult_nonneg_nonpos)
    with y False show ?thesis by simp
  qed
  with assms have "snd p < max (snd a) (snd b)"
    by (simp add: max_def split: if_splits)
  with t y x show "ray_crosses p a b"
    unfolding ray_crosses_def by blast
qed

lemma crossings_card:
  "crossings ps p =
     card {i. i < length ps \<and> ray_crosses p (ps ! i) (ps ! (Suc i mod length ps))}"
proof -
  have "crossings ps p
      = card {i. i < length (edges ps) \<and> crossing p (edges ps ! i)}"
    by (simp add: crossings_def length_filter_conv_card)
  also have "{i. i < length (edges ps) \<and> crossing p (edges ps ! i)}
      = {i. i < length ps \<and> ray_crosses p (ps ! i) (ps ! (Suc i mod length ps))}"
    by (auto simp: edges_def nth_rotate1 crossing_iff_ray_crosses)
  finally show ?thesis .
qed

text \<open>
  On the square of section 8 the registry answers as the geometry does: away from the
  boundary, a point is inside exactly when both coordinates lie between 0 and 100.
  (On the boundary it counts the left and the lower side in, the other two out.)
\<close>

lemma contains_square:
  assumes "zs zid = Some z" and "points z = [(0, 0), (100, 0), (100, 100), (0, 100)]"
  shows "contains zs zid (x, y) \<longleftrightarrow> 0 \<le> x \<and> x < 100 \<and> 0 \<le> y \<and> y < 100"
  using assms by (auto simp: contains_def crossings_def edges_def)

text \<open>
  Claim C4. For every zone of the registry and every query point (on an edge or not),
  \<open>contains\<close> is true exactly when the horizontal ray cast from the point crosses an odd
  number of the polygon's edges, the edges being counted by their position in the
  polygon; and for the square with the corners \<open>(0,0)\<close>, \<open>(100,0)\<close>, \<open>(100,100)\<close>, \<open>(0,100)\<close>
  it is true of the point \<open>(50,50)\<close> and false of \<open>(150,50)\<close>.
\<close>

theorem contains_iff_odd_crossings:
  assumes "zs zid = Some z"
  shows "(contains zs zid p \<longleftrightarrow>
            odd (card {i. i < length (points z) \<and>
                          ray_crosses p (points z ! i)
                            (points z ! (Suc i mod length (points z)))}))
       \<and> (points z = [(0, 0), (100, 0), (100, 100), (0, 100)] \<longrightarrow>
            contains zs zid (50, 50) \<and> \<not> contains zs zid (150, 50))"
proof -
  have "contains zs zid p = odd (crossings (points z) p)"
    using assms by (simp add: contains_def)
  then have general: "contains zs zid p \<longleftrightarrow>
      odd (card {i. i < length (points z) \<and>
                    ray_crosses p (points z ! i)
                      (points z ! (Suc i mod length (points z)))})"
    by (simp add: crossings_card)
  have "contains zs zid (50, 50) \<and> \<not> contains zs zid (150, 50)"
    if "points z = [(0, 0), (100, 0), (100, 100), (0, 100)]"
    using contains_square [of zs zid z, OF assms that] by simp
  with general show ?thesis by blast
qed

theorem contains_iff_odd_crossings_witness:
  "[''1'' \<mapsto> square] ''1'' = Some square \<and>
   points square = [(0, 0), (100, 0), (100, 100), (0, 100)] \<and>
   contains [''1'' \<mapsto> square] ''1'' (50, 50) \<and>
   \<not> contains [''1'' \<mapsto> square] ''1'' (150, 50) \<and>
   odd (card {i. i < length (points square) \<and>
                 ray_crosses (50, 50) (points square ! i)
                   (points square ! (Suc i mod length (points square)))})"
proof -
  have z: "[''1'' \<mapsto> square] ''1'' = Some square"
    by simp
  have ps: "points square = [(0, 0), (100, 0), (100, 100), (0, 100)]"
    by (simp add: square_def)
  note c4 = contains_iff_odd_crossings [of "[''1'' \<mapsto> square]" "''1''" square "(50, 50)", OF z]
  from c4 ps have inside: "contains [''1'' \<mapsto> square] ''1'' (50, 50)"
    and outside: "\<not> contains [''1'' \<mapsto> square] ''1'' (150, 50)"
    by blast+
  from c4 inside
  have "odd (card {i. i < length (points square) \<and>
                 ray_crosses (50, 50) (points square ! i)
                   (points square ! (Suc i mod length (points square)))})"
    by blast
  with z ps inside outside show ?thesis
    by blast
qed

end
